theory Spec2Isabelle
  imports Main
begin

section \<open>Data model (database/schema.sql)\<close>

text \<open>
  Timestamps are milliseconds since the epoch, as JavaScript's \<^verbatim>\<open>Date.now()\<close> gives them.
  One operation reads the clock once: \<^verbatim>\<open>new Date()\<close>, \<^verbatim>\<open>Date.now()\<close> and SQL
  \<^verbatim>\<open>NOW()\<close> inside one call all denote the same instant \<open>clock env\<close>.
\<close>

type_synonym time = int

datatype role = citizen | admin | super_admin

datatype status = active | inactive | suspended | locked

text \<open>Table \<^verbatim>\<open>users\<close>. Column \<^verbatim>\<open>id\<close> is \<open>user_id\<close>, \<^verbatim>\<open>name\<close> is \<open>user_name\<close>.\<close>

record user =
  user_id :: string
  nationalId :: string
  user_name :: string
  email :: string
  password :: string
  role :: role
  status :: status
  failedAttempts :: int
  lockedUntil :: "time option"
  lastLogin :: "time option"
  user_createdAt :: time
  user_updatedAt :: time

text \<open>Table \<^verbatim>\<open>sessions\<close>. Column \<^verbatim>\<open>id\<close> is \<open>session_id\<close>.\<close>

record session =
  session_id :: string
  userId :: string
  token :: string
  session_createdAt :: time
  expiresAt :: time
  lastActivity :: time
  isActive :: bool
  ipAddress :: "string option"
  userAgent :: "string option"
  loggedOutAt :: "time option"

text \<open>
  Table \<^verbatim>\<open>audit_logs\<close>. The \<^verbatim>\<open>details\<close> column holds \<^verbatim>\<open>JSON.stringify\<close> of a flat
  object; it is kept as the list of the object's defined string properties.
\<close>

record audit_log =
  log_id :: string
  log_userId :: "string option"
  action :: string
  details :: "(string \<times> string) list"
  log_ipAddress :: "string option"
  log_userAgent :: "string option"
  timestamp :: time

text \<open>
  The storage engine: three tables, each a list of rows in insertion order. \<^verbatim>\<open>db.query\<close>
  is taken as the parameterised statement it stands for, and column comparison as equality
  of strings.
\<close>

record db =
  users :: "user list"
  sessions :: "session list"
  audit_logs :: "audit_log list"

section \<open>Collaborators\<close>

text \<open>The \<^verbatim>\<open>metadata\<close> object the controllers build: each property may be undefined.\<close>

record metadata =
  ip :: "string option"
  md_userAgent :: "string option"
  requestId :: "string option"

datatype jwt_payload =
    AccessPayload string string string string role
  | RefreshPayload string

datatype jwt_error = TokenExpiredError | JsonWebTokenError

text \<open>
  What the code takes from outside: the clock, bcrypt, the jsonwebtoken library (signing
  throws when no secret is configured, hence \<open>option\<close>; verification yields the decoded
  \<^verbatim>\<open>id\<close> property, which may be undefined, or throws), the uuid generator (the k-th call of
  one operation is \<open>uuidv4 env k\<close>), and the environment variables after \<^verbatim>\<open>parseInt\<close>
  (\<open>None\<close> is NaN: the variable is unset or not numeric).
\<close>

record env =
  clock :: time
  bcrypt_compare :: "string \<Rightarrow> string \<Rightarrow> bool"
  bcrypt_hash :: "string \<Rightarrow> string"
  jwt_sign :: "jwt_payload \<Rightarrow> string option"
  jwt_verify :: "string \<Rightarrow> jwt_error + string option"
  uuidv4 :: "nat \<Rightarrow> string"
  MAX_LOGIN_ATTEMPTS :: "int option"
  LOCKOUT_TIME :: "int option"
  PASSWORD_MIN_LENGTH :: "int option"

section \<open>JavaScript idioms\<close>

text \<open>\<^verbatim>\<open>parseInt(x) || d\<close>: NaN and 0 are falsy.\<close>

definition int_or :: "int option \<Rightarrow> int \<Rightarrow> int" where
  "int_or x d = (case x of None \<Rightarrow> d | Some n \<Rightarrow> if n = 0 then d else n)"






text \<open>Truthiness of a string that may be undefined or null: the empty string is falsy.\<close>

definition truthy :: "string option \<Rightarrow> bool" where
  "truthy x = (case x of None \<Rightarrow> False | Some s \<Rightarrow> s \<noteq> [])"

text \<open>\<^verbatim>\<open>x || null\<close> on such a string.\<close>

definition or_null :: "string option \<Rightarrow> string option" where
  "or_null x = (if truthy x then x else None)"

text \<open>\<^verbatim>\<open>lockedUntil && new Date() < lockedUntil\<close>: a Date object is truthy, NULL is not.\<close>

definition isLocked :: "time \<Rightarrow> user \<Rightarrow> bool" where
  "isLocked t u = (case lockedUntil u of None \<Rightarrow> False | Some l \<Rightarrow> t < l)"

section \<open>SQL statements\<close>

text \<open>
  \<^verbatim>\<open>UPDATE users SET ... WHERE ...\<close>. Column \<^verbatim>\<open>updatedAt\<close> is declared
  \<^verbatim>\<open>ON UPDATE CURRENT_TIMESTAMP\<close>: it is set when the statement changes the row.
\<close>

definition update_row :: "time \<Rightarrow> (user \<Rightarrow> bool) \<Rightarrow> (user \<Rightarrow> user) \<Rightarrow> user \<Rightarrow> user" where
  "update_row t P f u = (if P u \<and> f u \<noteq> u then (f u)\<lparr>user_updatedAt := t\<rparr> else u)"

definition update_users :: "time \<Rightarrow> (user \<Rightarrow> bool) \<Rightarrow> (user \<Rightarrow> user) \<Rightarrow> db \<Rightarrow> db" where
  "update_users t P f d = d\<lparr>users := map (update_row t P f) (users d)\<rparr>"

text \<open>\<^verbatim>\<open>UPDATE sessions SET ... WHERE ...\<close>\<close>

definition update_sessions :: "(session \<Rightarrow> bool) \<Rightarrow> (session \<Rightarrow> session) \<Rightarrow> db \<Rightarrow> db" where
  "update_sessions P f d = d\<lparr>sessions := map (\<lambda>s. if P s then f s else s) (sessions d)\<rparr>"

text \<open>
  The errors of the storage engine that a value supplied by the caller can provoke, with
  the message the driver reports: NULL written to a column declared NOT NULL, and a
  foreign key naming a row that does not exist.
\<close>

datatype storage_error = ER_BAD_NULL_ERROR | ER_NO_REFERENCED_ROW


text \<open>The number of rows an \<^verbatim>\<open>UPDATE sessions\<close> matches (\<^verbatim>\<open>result.affectedRows\<close>).\<close>

definition affectedRows :: "(session \<Rightarrow> bool) \<Rightarrow> db \<Rightarrow> nat" where
  "affectedRows P d = length (filter P (sessions d))"

section \<open>AuthService (services/authService.js)\<close>

datatype error =
    InvalidCredentials
  | AccountLocked
  | AccountInactive
  | DuplicateAccount
  | WeakPassword
  | SigningFailed

text \<open>The message of the \<^verbatim>\<open>Error\<close> each failure throws.\<close>

fun message :: "error \<Rightarrow> string" where
  "message InvalidCredentials = ''Invalid credentials''"
| "message AccountLocked = ''Account is locked due to too many failed attempts''"
| "message AccountInactive = ''Account is not active''"
| "message DuplicateAccount = ''User already exists''"
| "message WeakPassword = ''Password does not meet security requirements''"
| "message SigningFailed = ''secretOrPrivateKey must have a value''"

record tokens =
  accessToken :: string
  refreshToken :: string

record user_view =
  view_id :: string
  view_nationalId :: string
  view_name :: string
  view_email :: string
  view_role :: role
  view_lastLogin :: "time option"

record auth_result =
  res_user :: user_view
  res_tokens :: tokens
  res_sessionId :: string

text \<open>\<^verbatim>\<open>logFailedAttempt\<close>: the user id column is the literal NULL.\<close>

definition logFailedAttempt :: "env \<Rightarrow> nat \<Rightarrow> string \<Rightarrow> string \<Rightarrow> metadata \<Rightarrow> db \<Rightarrow> db" where
  "logFailedAttempt env k nid reason md d =
     d\<lparr>audit_logs := audit_logs d @
        [\<lparr>log_id = uuidv4 env k, log_userId = None, action = ''LOGIN_FAILED'',
          details = [(''nationalId'', nid), (''reason'', reason)],
          log_ipAddress = or_null (ip md), log_userAgent = or_null (md_userAgent md),
          timestamp = clock env\<rparr>]\<rparr>"

text \<open>\<^verbatim>\<open>JSON.stringify(metadata)\<close>: undefined properties are left out.\<close>

definition metadata_details :: "metadata \<Rightarrow> (string \<times> string) list" where
  "metadata_details md =
     (case ip md of None \<Rightarrow> [] | Some v \<Rightarrow> [(''ip'', v)]) @
     (case md_userAgent md of None \<Rightarrow> [] | Some v \<Rightarrow> [(''userAgent'', v)]) @
     (case requestId md of None \<Rightarrow> [] | Some v \<Rightarrow> [(''requestId'', v)])"

text \<open>
  \<^verbatim>\<open>logUserAction(userId, action, metadata)\<close>; \<open>dt\<close> is the stringified object, \<open>md\<close>
  the object whose \<^verbatim>\<open>ip\<close> and \<^verbatim>\<open>userAgent\<close> are read.
\<close>

definition logUserAction ::
  "env \<Rightarrow> nat \<Rightarrow> string \<Rightarrow> string \<Rightarrow> (string \<times> string) list \<Rightarrow> metadata \<Rightarrow> db \<Rightarrow> db" where
  "logUserAction env k uid act dt md d =
     d\<lparr>audit_logs := audit_logs d @
        [\<lparr>log_id = uuidv4 env k, log_userId = Some uid, action = act, details = dt,
          log_ipAddress = or_null (ip md), log_userAgent = or_null (md_userAgent md),
          timestamp = clock env\<rparr>]\<rparr>"

definition logSuccessfulLogin :: "env \<Rightarrow> nat \<Rightarrow> string \<Rightarrow> metadata \<Rightarrow> db \<Rightarrow> db" where
  "logSuccessfulLogin env k uid md d =
     logUserAction env k uid ''LOGIN_SUCCESS'' (metadata_details md) md d"

definition resetFailedAttempts :: "env \<Rightarrow> string \<Rightarrow> db \<Rightarrow> db" where
  "resetFailedAttempts env uid d =
     update_users (clock env) (\<lambda>u. user_id u = uid)
       (\<lambda>u. u\<lparr>failedAttempts := 0, lockedUntil := None\<rparr>) d"

text \<open>
  \<^verbatim>\<open>handleFailedLogin\<close>: increment, read the counter back, and set \<^verbatim>\<open>lockedUntil\<close>
  when it has reached \<^verbatim>\<open>maxAttempts\<close>. No other column is written.
\<close>

definition handleFailedLogin :: "env \<Rightarrow> string \<Rightarrow> string \<Rightarrow> metadata \<Rightarrow> db \<Rightarrow> db" where
  "handleFailedLogin env uid nid md d =
     (let maxAttempts = int_or (MAX_LOGIN_ATTEMPTS env) 5;
          lockoutTime = int_or (LOCKOUT_TIME env) 30;
          d1 = update_users (clock env) (\<lambda>u. user_id u = uid)
                 (\<lambda>u. u\<lparr>failedAttempts := failedAttempts u + 1\<rparr>) d;
          rows = filter (\<lambda>u. user_id u = uid) (users d1);
          d2 = (case rows of
                  [] \<Rightarrow> d1
                | r # _ \<Rightarrow>
                    if failedAttempts r \<ge> maxAttempts
                    then update_users (clock env) (\<lambda>u. user_id u = uid)
                           (\<lambda>u. u\<lparr>lockedUntil := Some (clock env + lockoutTime * 60 * 1000)\<rparr>) d1
                    else d1)
      in logFailedAttempt env 0 nid ''Invalid password'' md d2)"

definition generateTokens :: "env \<Rightarrow> user_view \<Rightarrow> tokens option" where
  "generateTokens env v =
     (case jwt_sign env (AccessPayload (view_id v) (view_nationalId v) (view_name v)
                           (view_email v) (view_role v)) of
        None \<Rightarrow> None
      | Some a \<Rightarrow>
          (case jwt_sign env (RefreshPayload (view_id v)) of
             None \<Rightarrow> None
           | Some r \<Rightarrow> Some \<lparr>accessToken = a, refreshToken = r\<rparr>))"

text \<open>\<^verbatim>\<open>createSession\<close>: a new row, active, expiring in 24 hours.\<close>

definition createSession :: "env \<Rightarrow> nat \<Rightarrow> string \<Rightarrow> string \<Rightarrow> metadata \<Rightarrow> db \<Rightarrow> string \<times> db" where
  "createSession env k uid tok md d =
     (uuidv4 env k,
      d\<lparr>sessions := sessions d @
        [\<lparr>session_id = uuidv4 env k, userId = uid, token = tok,
          session_createdAt = clock env,
          expiresAt = clock env + 24 * 60 * 60 * 1000,
          lastActivity = clock env, isActive = True,
          ipAddress = or_null (ip md), userAgent = or_null (md_userAgent md),
          loggedOutAt = None\<rparr>]\<rparr>)"

definition view_of :: "user \<Rightarrow> user_view" where
  "view_of u = \<lparr>view_id = user_id u, view_nationalId = nationalId u, view_name = user_name u,
                view_email = email u, view_role = role u, view_lastLogin = lastLogin u\<rparr>"

text \<open>\<^verbatim>\<open>SELECT ... FROM users WHERE nationalId = ?\<close>\<close>

definition usersByNationalId :: "string \<Rightarrow> db \<Rightarrow> user list" where
  "usersByNationalId nid d = filter (\<lambda>u. nationalId u = nid) (users d)"

text \<open>
  \<^verbatim>\<open>login(nationalId, password, metadata)\<close>. The result pairs what the call returns or
  throws with the database it leaves behind.
\<close>

definition login :: "env \<Rightarrow> string \<Rightarrow> string \<Rightarrow> metadata \<Rightarrow> db \<Rightarrow> (error + auth_result) \<times> db" where
  "login env nid pw md d =
     (case usersByNationalId nid d of
        [] \<Rightarrow> (Inl InvalidCredentials, logFailedAttempt env 0 nid ''User not found'' md d)
      | u # _ \<Rightarrow>
          if isLocked (clock env) u
          then (Inl AccountLocked, logFailedAttempt env 0 nid ''Account locked'' md d)
          else if status u \<noteq> active
          then (Inl AccountInactive, logFailedAttempt env 0 nid ''Account inactive'' md d)
          else if \<not> bcrypt_compare env pw (password u)
          then (Inl InvalidCredentials, handleFailedLogin env (user_id u) nid md d)
          else
            (let d1 = resetFailedAttempts env (user_id u) d
             in case generateTokens env (view_of u) of
                  None \<Rightarrow> (Inl SigningFailed, d1)
                | Some tk \<Rightarrow>
                    (let (sessionId, d2) = createSession env 0 (user_id u) (accessToken tk) md d1;
                         d3 = update_users (clock env) (\<lambda>x. user_id x = user_id u)
                                (\<lambda>x. x\<lparr>lastLogin := Some (clock env)\<rparr>) d2;
                         d4 = logSuccessfulLogin env 1 (user_id u) md d3
                     in (Inr \<lparr>res_user = view_of u, res_tokens = tk, res_sessionId = sessionId\<rparr>,
                         d4))))"

text \<open>\<^verbatim>\<open>SecurityConfig.isStrongPassword\<close> (config/security.js).\<close>

definition isStrongPassword :: "env \<Rightarrow> string \<Rightarrow> bool" where
  "isStrongPassword env pw =
     (let minLength = int_or (PASSWORD_MIN_LENGTH env) 8;
          hasUpperCase = list_ex (\<lambda>c. c \<in> set ''ABCDEFGHIJKLMNOPQRSTUVWXYZ'') pw;
          hasLowerCase = list_ex (\<lambda>c. c \<in> set ''abcdefghijklmnopqrstuvwxyz'') pw;
          hasNumbers = list_ex (\<lambda>c. c \<in> set ''0123456789'') pw;
          hasSpecialChar = list_ex (\<lambda>c. c \<in> set (CHR 0x22 # ''!@#$%^&*(),.?:{}|<>'')) pw
      in int (length pw) \<ge> minLength \<and> hasUpperCase \<and> hasLowerCase \<and> hasNumbers
         \<and> hasSpecialChar)"

record userData =
  reg_nationalId :: string
  reg_name :: string
  reg_email :: string
  reg_password :: string

definition no_metadata :: metadata where
  "no_metadata = \<lparr>ip = None, md_userAgent = None, requestId = None\<rparr>"

text \<open>\<^verbatim>\<open>SELECT id FROM users WHERE nationalId = ? OR email = ?\<close>\<close>

definition existingUsers :: "string \<Rightarrow> string \<Rightarrow> db \<Rightarrow> user list" where
  "existingUsers nid em d = filter (\<lambda>u. nationalId u = nid \<or> email u = em) (users d)"

text \<open>
  \<^verbatim>\<open>register(userData)\<close>. The columns the INSERT does not name take the defaults of the
  schema.
\<close>

definition register :: "env \<Rightarrow> userData \<Rightarrow> db \<Rightarrow> (error + auth_result) \<times> db" where
  "register env ud d =
     (if existingUsers (reg_nationalId ud) (reg_email ud) d \<noteq> []
      then (Inl DuplicateAccount, d)
      else if \<not> isStrongPassword env (reg_password ud)
      then (Inl WeakPassword, d)
      else
        (let hashedPassword = bcrypt_hash env (reg_password ud);
             uid = uuidv4 env 0;
             d1 = d\<lparr>users := users d @
                    [\<lparr>user_id = uid, nationalId = reg_nationalId ud, user_name = reg_name ud,
                      email = reg_email ud, password = hashedPassword, role = citizen,
                      status = active, failedAttempts = 0, lockedUntil = None,
                      lastLogin = None, user_createdAt = clock env,
                      user_updatedAt = clock env\<rparr>]\<rparr>;
             v = \<lparr>view_id = uid, view_nationalId = reg_nationalId ud,
                  view_name = reg_name ud, view_email = reg_email ud, view_role = citizen,
                  view_lastLogin = None\<rparr>
         in case generateTokens env v of
              None \<Rightarrow> (Inl SigningFailed, d1)
            | Some tk \<Rightarrow>
                (let (sessionId, d2) = createSession env 1 uid (accessToken tk) no_metadata d1;
                     d3 = logUserAction env 2 uid ''USER_REGISTERED'' [] no_metadata d2
                 in (Inr \<lparr>res_user = v, res_tokens = tk, res_sessionId = sessionId\<rparr>, d3))))"

text \<open>
  \<^verbatim>\<open>logout(userId, sessionId)\<close>: the UPDATE names the session by id and owner and has no
  condition on \<^verbatim>\<open>isActive\<close>; then the audit entry is inserted and the call returns
  \<^verbatim>\<open>true\<close>. Column \<^verbatim>\<open>audit_logs.userId\<close> references \<^verbatim>\<open>users(id)\<close>: for a user id
  that no row carries the INSERT fails and logout throws, the UPDATE being already done.
  (login and register pass the id of a row they have read or inserted.) The statements
  are not wrapped in a transaction.
\<close>

definition logout :: "env \<Rightarrow> string \<Rightarrow> string \<Rightarrow> db \<Rightarrow> (storage_error + bool) \<times> db" where
  "logout env uid sid d =
     (let d1 = update_sessions (\<lambda>s. session_id s = sid \<and> userId s = uid)
                 (\<lambda>s. s\<lparr>isActive := False, loggedOutAt := Some (clock env)\<rparr>) d
      in if \<not> list_ex (\<lambda>u. user_id u = uid) (users d1)
         then (Inl ER_NO_REFERENCED_ROW, d1)
         else (Inr True,
               logUserAction env 0 uid ''USER_LOGGED_OUT'' [(''sessionId'', sid)] no_metadata d1))"

section \<open>AuthController.refreshToken (controllers/authController.js)\<close>

text \<open>
  The methods class \<^verbatim>\<open>AuthService\<close> declares. The module exports one instance of the
  class and nothing adds a property to it.
\<close>

definition AuthService_methods :: "string list" where
  "AuthService_methods =
     [''login'', ''register'', ''logout'', ''generateTokens'', ''createSession'',
      ''handleFailedLogin'', ''resetFailedAttempts'', ''logFailedAttempt'',
      ''logSuccessfulLogin'', ''logUserAction'']"

datatype refresh_response =
    RefreshOk string int
  | RefreshFailed nat string

text \<open>
  \<^verbatim>\<open>AuthController.refreshToken(req, res)\<close>, with \<open>rt\<close> the \<^verbatim>\<open>refreshToken\<close> property of
  the body. Calling a property that is not a function throws a TypeError, which the
  handler's \<^verbatim>\<open>catch\<close> answers with 401. \<open>impl\<close> stands for the body the call would
  run if the service had the method.
\<close>

definition AuthController_refreshToken ::
  "(string \<Rightarrow> error + string) \<Rightarrow> string option \<Rightarrow> refresh_response" where
  "AuthController_refreshToken impl rt =
     (case rt of
        None \<Rightarrow> RefreshFailed 400 ''Refresh token is required''
      | Some t \<Rightarrow>
          if t = [] then RefreshFailed 400 ''Refresh token is required''
          else if ''refreshToken'' \<notin> set AuthService_methods
          then RefreshFailed 401 ''Invalid refresh token''
          else (case impl t of
                  Inl e \<Rightarrow> RefreshFailed 401 ''Invalid refresh token''
                | Inr a \<Rightarrow> RefreshOk a 3600))"

section \<open>authenticateToken (middleware/auth.js)\<close>

text \<open>\<^verbatim>\<open>s.split(c)\<close>\<close>

fun split_on :: "char \<Rightarrow> string \<Rightarrow> string list" where
  "split_on c [] = [] # []"
| "split_on c (x # xs) =
     (if x = c then [] # split_on c xs
      else (case split_on c xs of
              [] \<Rightarrow> [x] # []
            | w # ws \<Rightarrow> (x # w) # ws))"

text \<open>\<^verbatim>\<open>authHeader && authHeader.split(' ')[1]\<close>\<close>

definition bearer :: "string option \<Rightarrow> string option" where
  "bearer h =
     (case h of
        None \<Rightarrow> None
      | Some s \<Rightarrow>
          if s = [] then Some []
          else (case split_on CHR '' '' s of
                  _ # t # _ \<Rightarrow> Some t
                | _ \<Rightarrow> None))"

record principal =
  p_id :: string
  p_nationalId :: string
  p_name :: string
  p_email :: string
  p_role :: role
  p_sessionId :: string

datatype auth_outcome =
    Next principal
  | Rejected nat string

text \<open>\<^verbatim>\<open>SELECT ... FROM users WHERE id = ?\<close>; an undefined parameter is NULL and matches no row.\<close>

definition usersById :: "string option \<Rightarrow> db \<Rightarrow> user list" where
  "usersById i d = (case i of None \<Rightarrow> [] | Some x \<Rightarrow> filter (\<lambda>u. user_id u = x) (users d))"

text \<open>\<^verbatim>\<open>SELECT ... FROM sessions WHERE userId = ? AND token = ? AND isActive = 1\<close>\<close>

definition activeSessionsFor :: "string \<Rightarrow> string \<Rightarrow> db \<Rightarrow> session list" where
  "activeSessionsFor uid tok d =
     filter (\<lambda>s. userId s = uid \<and> token s = tok \<and> isActive s) (sessions d)"

definition authenticateToken :: "env \<Rightarrow> string option \<Rightarrow> db \<Rightarrow> auth_outcome \<times> db" where
  "authenticateToken env authHeader d =
     (case bearer authHeader of
        None \<Rightarrow> (Rejected 401 ''Access token required'', d)
      | Some tok \<Rightarrow>
          if tok = [] then (Rejected 401 ''Access token required'', d)
          else
            (case jwt_verify env tok of
               Inl TokenExpiredError \<Rightarrow> (Rejected 401 ''Token expired'', d)
             | Inl JsonWebTokenError \<Rightarrow> (Rejected 403 ''Invalid token'', d)
             | Inr decoded_id \<Rightarrow>
                 (case usersById decoded_id d of
                    [] \<Rightarrow> (Rejected 401 ''User not found'', d)
                  | u # _ \<Rightarrow>
                      if status u \<noteq> active
                      then (Rejected 401 ''Account is not active'', d)
                      else if isLocked (clock env) u
                      then (Rejected 423 ''Account is locked'', d)
                      else
                        (case activeSessionsFor (user_id u) tok d of
                           [] \<Rightarrow> (Rejected 401 ''Session not found'', d)
                         | s # _ \<Rightarrow>
                             if clock env > expiresAt s
                             then (Rejected 401 ''Session expired'',
                                   update_sessions (\<lambda>x. session_id x = session_id s)
                                     (\<lambda>x. x\<lparr>isActive := False\<rparr>) d)
                             else (Next \<lparr>p_id = user_id u, p_nationalId = nationalId u,
                                          p_name = user_name u, p_email = email u,
                                          p_role = role u, p_sessionId = session_id s\<rparr>,
                                   update_sessions (\<lambda>x. session_id x = session_id s)
                                     (\<lambda>x. x\<lparr>lastActivity := clock env\<rparr>) d)))))"

section \<open>SessionService (services/sessionService.js) and SessionController\<close>

text \<open>
  The WHERE clause of \<^verbatim>\<open>terminateAllSessions\<close>: \<^verbatim>\<open>AND id != ?\<close> is added when
  \<^verbatim>\<open>excludeSessionId\<close> is truthy.
\<close>

definition terminateAll_where :: "string \<Rightarrow> string option \<Rightarrow> session \<Rightarrow> bool" where
  "terminateAll_where uid excludeSessionId s =
     (userId s = uid \<and> isActive s \<and>
      (case excludeSessionId of
         None \<Rightarrow> True
       | Some e \<Rightarrow> if e = [] then True else session_id s \<noteq> e))"

definition terminateAllSessions :: "env \<Rightarrow> string \<Rightarrow> string option \<Rightarrow> db \<Rightarrow> nat \<times> db" where
  "terminateAllSessions env uid excludeSessionId d =
     (affectedRows (terminateAll_where uid excludeSessionId) d,
      update_sessions (terminateAll_where uid excludeSessionId)
        (\<lambda>s. s\<lparr>isActive := False, loggedOutAt := Some (clock env)\<rparr>) d)"

text \<open>
  \<^verbatim>\<open>SessionController.terminateAllSessions\<close>: the exclusion is the \<^verbatim>\<open>sessionId\<close> cookie
  of the request, the answer carries \<^verbatim>\<open>terminatedCount\<close>.
\<close>

definition SessionController_terminateAllSessions ::
  "env \<Rightarrow> string \<Rightarrow> string option \<Rightarrow> db \<Rightarrow> nat \<times> db" where
  "SessionController_terminateAllSessions env req_user_id cookie d =
     terminateAllSessions env req_user_id cookie d"




section \<open>Concrete stores used to run the operations\<close>

definition env0 :: env where
  "env0 = \<lparr>clock = 1000,
           bcrypt_compare = (\<lambda>pw h. h = ''#'' @ pw),
           bcrypt_hash = (\<lambda>pw. ''#'' @ pw),
           jwt_sign = (\<lambda>p. case p of AccessPayload i _ _ _ _ \<Rightarrow> Some (''a.'' @ i)
                                 | RefreshPayload i \<Rightarrow> Some (''r.'' @ i)),
           jwt_verify = (\<lambda>t. if take 2 t = ''a.'' then Inr (Some (drop 2 t))
                              else Inl JsonWebTokenError),
           uuidv4 = (\<lambda>k. ''id'' @ replicate k CHR ''x''),
           MAX_LOGIN_ATTEMPTS = None,
           LOCKOUT_TIME = None,
           PASSWORD_MIN_LENGTH = None\<rparr>"

definition john :: user where
  "john = \<lparr>user_id = ''u1'', nationalId = ''199012345678'', user_name = ''John Doe'',
           email = ''john@example.com'', password = ''#Test123!'', role = citizen,
           status = active, failedAttempts = 4, lockedUntil = None, lastLogin = None,
           user_createdAt = 0, user_updatedAt = 0\<rparr>"

definition s1 :: session where
  "s1 = \<lparr>session_id = ''s1'', userId = ''u1'', token = ''a.u1'', session_createdAt = 0,
         expiresAt = 1000, lastActivity = 0, isActive = True, ipAddress = None,
         userAgent = None, loggedOutAt = None\<rparr>"

definition s2 :: session where
  "s2 = \<lparr>session_id = ''s2'', userId = ''u1'', token = ''a.u1b'', session_createdAt = 0,
         expiresAt = 5000, lastActivity = 0, isActive = True, ipAddress = None,
         userAgent = None, loggedOutAt = None\<rparr>"

definition db0 :: db where
  "db0 = \<lparr>users = [john], sessions = [s1, s2], audit_logs = []\<rparr>"

definition md0 :: metadata where
  "md0 = \<lparr>ip = Some ''10.0.0.1'', md_userAgent = None, requestId = None\<rparr>"

definition john_locked :: user where
  "john_locked = john\<lparr>failedAttempts := 5, lockedUntil := Some 5000\<rparr>"

definition db1 :: db where
  "db1 = \<lparr>users = [john_locked], sessions = [s1, s2], audit_logs = []\<rparr>"

definition env1 :: env where
  "env1 = env0\<lparr>clock := 2000\<rparr>"




definition jane :: userData where
  "jane = \<lparr>reg_nationalId = ''199012345679'', reg_name = ''Jane Doe'',
            reg_email = ''john@example.com'', reg_password = ''StrongPass123!''\<rparr>"

section \<open>Frame lemmas for the SQL statements\<close>

lemma audit_logs_update_users: "audit_logs (update_users t P f d) = audit_logs d"
  by (simp add: update_users_def)

lemma sessions_update_users: "sessions (update_users t P f d) = sessions d"
  by (simp add: update_users_def)

lemma users_update_sessions: "users (update_sessions P f d) = users d"
  by (simp add: update_sessions_def)

lemma audit_logs_update_sessions: "audit_logs (update_sessions P f d) = audit_logs d"
  by (simp add: update_sessions_def)

lemma audit_logs_logFailedAttempt:
  "audit_logs (logFailedAttempt env k nid reason md d) = audit_logs d @
        [\<lparr>log_id = uuidv4 env k, log_userId = None, action = ''LOGIN_FAILED'',
          details = [(''nationalId'', nid), (''reason'', reason)],
          log_ipAddress = or_null (ip md), log_userAgent = or_null (md_userAgent md),
          timestamp = clock env\<rparr>]"
  by (simp add: logFailedAttempt_def)

lemma audit_logs_handleFailedLogin:
  "audit_logs (handleFailedLogin env uid nid md d) = audit_logs d @
        [\<lparr>log_id = uuidv4 env 0, log_userId = None, action = ''LOGIN_FAILED'',
          details = [(''nationalId'', nid), (''reason'', ''Invalid password'')],
          log_ipAddress = or_null (ip md), log_userAgent = or_null (md_userAgent md),
          timestamp = clock env\<rparr>]"
  by (simp add: handleFailedLogin_def Let_def audit_logs_logFailedAttempt audit_logs_update_users
      split: list.splits)

lemma audit_logs_login_success:
  "audit_logs (logSuccessfulLogin env k uid md
      (update_users t P f (snd (createSession env j uid' tok md' (resetFailedAttempts env uid'' d))))) =
   audit_logs d @
     [\<lparr>log_id = uuidv4 env k, log_userId = Some uid, action = ''LOGIN_SUCCESS'',
       details = metadata_details md,
       log_ipAddress = or_null (ip md), log_userAgent = or_null (md_userAgent md),
       timestamp = clock env\<rparr>]"
  by (simp add: logSuccessfulLogin_def logUserAction_def createSession_def
      resetFailedAttempts_def audit_logs_update_users)

section \<open>Login: lockout before password verification\<close>

text \<open>
  C3. When the row that login resolves for the identity number has a locked-until in the
  future, login fails with AccountLocked, a failure whose message differs from that of
  InvalidCredentials. The password plays no part: whatever password is supplied and
  whatever the hash comparison would answer, the outcome and the database left behind are
  the same.
\<close>

theorem login_locked_before_password:
  assumes "usersByNationalId nid d = u # rest"
    and "lockedUntil u = Some l"
    and "clock env < l"
  shows "fst (login env nid pw md d) = Inl AccountLocked
       \<and> message AccountLocked \<noteq> message InvalidCredentials
       \<and> login (env\<lparr>bcrypt_compare := cmp\<rparr>) nid pw' md d = login env nid pw md d"
  using assms by (simp add: login_def isLocked_def logFailedAttempt_def)

text \<open>A locked account and its correct password.\<close>

theorem login_locked_before_password_witness:
  "usersByNationalId ''199012345678'' db1 = [john_locked]
   \<and> lockedUntil john_locked = Some 5000
   \<and> clock env0 < 5000
   \<and> bcrypt_compare env0 ''Test123!'' (password john_locked)
   \<and> fst (login env0 ''199012345678'' ''Test123!'' md0 db1) = Inl AccountLocked"
proof -
  have h1: "usersByNationalId ''199012345678'' db1 = john_locked # []"
    by (simp add: usersByNationalId_def db1_def john_locked_def john_def)
  have h2: "lockedUntil john_locked = Some 5000"
    by (simp add: john_locked_def)
  have h3: "clock env0 < 5000"
    by (simp add: env0_def)
  have h4: "bcrypt_compare env0 ''Test123!'' (password john_locked)"
    by (simp add: env0_def john_locked_def john_def)
  from login_locked_before_password [OF h1 h2 h3] h1 h2 h3 h4 show ?thesis
    by simp
qed

section \<open>Registration of a duplicate\<close>

text \<open>
  C6. When some user row already carries the identity number or the email of the
  registration request, register fails with DuplicateAccount and leaves the database,
  hence the user store, exactly as it was.
\<close>

theorem register_duplicate_rejected:
  assumes "\<exists>u \<in> set (users d). nationalId u = reg_nationalId ud \<or> email u = reg_email ud"
  shows "register env ud d = (Inl DuplicateAccount, d)"
proof -
  from assms have "existingUsers (reg_nationalId ud) (reg_email ud) d \<noteq> []"
    by (auto simp: existingUsers_def filter_empty_conv)
  then show ?thesis by (simp add: register_def)
qed

text \<open>A new identity number with an email already taken, and a strong password.\<close>

theorem register_duplicate_rejected_witness:
  "john \<in> set (users db0) \<and> email john = reg_email jane
   \<and> nationalId john \<noteq> reg_nationalId jane
   \<and> isStrongPassword env0 (reg_password jane)
   \<and> register env0 jane db0 = (Inl DuplicateAccount, db0)"
proof -
  have h: "\<exists>u \<in> set (users db0). nationalId u = reg_nationalId jane \<or> email u = reg_email jane"
    by (simp add: db0_def john_def jane_def)
  have s: "isStrongPassword env0 (reg_password jane)"
    by (simp add: isStrongPassword_def env0_def jane_def int_or_def)
  from register_duplicate_rejected [OF h, of env0] s show ?thesis
    by (simp add: db0_def john_def jane_def)
qed

section \<open>Audit entries of failed logins\<close>

text \<open>
  C10. Whatever login does, the audit entries it appends with action LOGIN_FAILED have a
  null user id; and when login fails because the identity is unknown, the account is
  locked, the account is not active or the password is wrong, it appends exactly one
  entry, with action LOGIN_FAILED and a null user id, also when the user row was resolved.
\<close>

theorem failed_login_audit_has_no_user:
  "\<exists>new. audit_logs (snd (login env nid pw md d)) = audit_logs d @ new
     \<and> (\<forall>e \<in> set new. action e = ''LOGIN_FAILED'' \<longrightarrow> log_userId e = None)
     \<and> (fst (login env nid pw md d) \<in> {Inl InvalidCredentials, Inl AccountLocked, Inl AccountInactive}
          \<longrightarrow> (\<exists>e. new = [e] \<and> action e = ''LOGIN_FAILED'' \<and> log_userId e = None))"
proof (cases "usersByNationalId nid d")
  case Nil
  then show ?thesis
    by (simp add: login_def audit_logs_logFailedAttempt)
next
  case (Cons u rest)
  show ?thesis
  proof (cases "isLocked (clock env) u \<or> status u \<noteq> active \<or> \<not> bcrypt_compare env pw (password u)")
    case True
    with Cons show ?thesis
      by (auto simp: login_def audit_logs_logFailedAttempt audit_logs_handleFailedLogin)
  next
    case False
    show ?thesis
    proof (cases "generateTokens env (view_of u)")
      case None
      with Cons False show ?thesis
        by (simp add: login_def Let_def resetFailedAttempts_def audit_logs_update_users)
    next
      case (Some tk)
      with Cons False show ?thesis
        by (simp add: login_def Let_def split_beta audit_logs_login_success)
    qed
  qed
qed

text \<open>A wrong password for a resolved user.\<close>

theorem failed_login_audit_has_no_user_witness:
  "fst (login env0 ''199012345678'' ''wrong'' md0 db0) = Inl InvalidCredentials
   \<and> usersByNationalId ''199012345678'' db0 = [john]
   \<and> (\<exists>e. audit_logs (snd (login env0 ''199012345678'' ''wrong'' md0 db0)) = audit_logs db0 @ [e]
          \<and> action e = ''LOGIN_FAILED'' \<and> log_userId e = None)"
proof -
  have r: "fst (login env0 ''199012345678'' ''wrong'' md0 db0) = Inl InvalidCredentials"
    by (simp add: login_def usersByNationalId_def db0_def john_def env0_def isLocked_def)
  have u: "usersByNationalId ''199012345678'' db0 = [john]"
    by (simp add: usersByNationalId_def db0_def john_def)
  from failed_login_audit_has_no_user [of env0 "''199012345678''" "''wrong''" md0 db0] r u
  show ?thesis by auto
qed

section \<open>Token refresh\<close>

text \<open>
  C4. The controller answers every refresh request with a failure: 400 when the body has
  no refresh token, 401 "Invalid refresh token" for every token, valid ones included,
  because the service has no method of that name. No access token is ever returned.
\<close>

theorem refreshToken_rejects_every_token:
  "AuthController_refreshToken impl rt =
     (if truthy rt then RefreshFailed 401 ''Invalid refresh token''
      else RefreshFailed 400 ''Refresh token is required'')"
  by (simp add: AuthController_refreshToken_def AuthService_methods_def truthy_def
      split: option.splits)

section \<open>Rows of the users table under the UPDATE statements\<close>

lemma filter_user_id_distinct:
  "distinct (map user_id us) \<Longrightarrow> u \<in> set us \<Longrightarrow> filter (\<lambda>x. user_id x = user_id u) us = [u]"
proof (induction us)
  case Nil
  then show ?case by simp
next
  case (Cons a us)
  show ?case
  proof (cases "a = u")
    case True
    with Cons.prems have "\<forall>x \<in> set us. user_id x \<noteq> user_id u"
      by (auto simp: image_iff)
    then have "filter (\<lambda>x. user_id x = user_id u) us = []"
      by (simp add: filter_empty_conv)
    with True show ?thesis by simp
  next
    case False
    with Cons.prems have in_us: "u \<in> set us" by simp
    with Cons.prems have "user_id a \<noteq> user_id u"
      by (auto simp: image_iff)
    with Cons.IH Cons.prems in_us show ?thesis by simp
  qed
qed

lemma increment_changes_row: "x\<lparr>failedAttempts := failedAttempts x + 1\<rparr> \<noteq> (x::user)"
proof
  assume "x\<lparr>failedAttempts := failedAttempts x + 1\<rparr> = x"
  then have "failedAttempts (x\<lparr>failedAttempts := failedAttempts x + 1\<rparr>) = failedAttempts x"
    by simp
  then show False by simp
qed

lemma users_update_users: "users (update_users t P f d) = map (update_row t P f) (users d)"
  by (simp add: update_users_def)

lemma update_row_sel:
  assumes "\<And>y. sel (y\<lparr>user_updatedAt := t\<rparr>) = sel y"
  shows "sel (update_row t P f x) = (if P x then sel (f x) else sel x)"
proof (cases "P x \<and> f x \<noteq> x")
  case True
  with assms show ?thesis by (simp add: update_row_def)
next
  case False
  then have "P x \<Longrightarrow> f x = x" by simp
  then have "P x \<Longrightarrow> sel (f x) = sel x" by simp
  with False show ?thesis by (auto simp: update_row_def)
qed

lemma update_row_other: "\<not> P x \<Longrightarrow> update_row t P f x = x"
  by (simp add: update_row_def)

lemma update_row_increment:
  "update_row t (\<lambda>x. user_id x = uid) (\<lambda>x. x\<lparr>failedAttempts := failedAttempts x + 1\<rparr>) x =
   (if user_id x = uid then x\<lparr>failedAttempts := failedAttempts x + 1, user_updatedAt := t\<rparr> else x)"
  by (simp add: update_row_def increment_changes_row)

lemma update_row_lock:
  assumes "user_id y = uid \<longrightarrow> user_updatedAt y = t"
  shows "update_row t (\<lambda>x. user_id x = uid) (\<lambda>x. x\<lparr>lockedUntil := Some l\<rparr>) y =
         (if user_id y = uid then y\<lparr>lockedUntil := Some l, user_updatedAt := t\<rparr> else y)"
proof (cases "user_id y = uid \<and> y\<lparr>lockedUntil := Some l\<rparr> = y")
  case True
  then have "y\<lparr>lockedUntil := Some l\<rparr> = y" by simp
  then have "y\<lparr>lockedUntil := Some l, user_updatedAt := t\<rparr> = y\<lparr>user_updatedAt := t\<rparr>"
    by simp
  also from True assms have "y\<lparr>user_updatedAt := t\<rparr> = y" by simp
  finally show ?thesis using True by (simp add: update_row_def)
next
  case False
  then show ?thesis by (auto simp: update_row_def)
qed

lemma users_handleFailedLogin:
  assumes pk: "distinct (map user_id (users d))"
    and u: "u \<in> set (users d)"
  shows "users (handleFailedLogin env (user_id u) nid md d) =
     map (\<lambda>x. if user_id x = user_id u
               then (if failedAttempts u + 1 \<ge> int_or (MAX_LOGIN_ATTEMPTS env) 5
                     then x\<lparr>failedAttempts := failedAttempts x + 1,
                            lockedUntil := Some (clock env + int_or (LOCKOUT_TIME env) 30 * 60 * 1000),
                            user_updatedAt := clock env\<rparr>
                     else x\<lparr>failedAttempts := failedAttempts x + 1, user_updatedAt := clock env\<rparr>)
               else x) (users d)"
proof -
  let ?t = "clock env"
  let ?g = "\<lambda>x. if user_id x = user_id u
                 then x\<lparr>failedAttempts := failedAttempts x + 1, user_updatedAt := ?t\<rparr> else x"
  let ?d1 = "update_users ?t (\<lambda>x. user_id x = user_id u)
               (\<lambda>x. x\<lparr>failedAttempts := failedAttempts x + 1\<rparr>) d"
  have d1: "users ?d1 = map ?g (users d)"
    by (simp add: users_update_users update_row_increment)
  have "filter (\<lambda>x. user_id x = user_id u) (map ?g (users d)) =
        map ?g (filter (\<lambda>x. user_id x = user_id u) (users d))"
    by (induction "users d") (auto simp: filter_map comp_def)
  also have "\<dots> = [?g u]"
    using filter_user_id_distinct [OF pk u] by simp
  finally have rows: "filter (\<lambda>x. user_id x = user_id u) (users ?d1) = [?g u]"
    using d1 by simp
  have fa: "failedAttempts (?g u) = failedAttempts u + 1" by simp
  show ?thesis
  proof (cases "failedAttempts u + 1 \<ge> int_or (MAX_LOGIN_ATTEMPTS env) 5")
    case True
    let ?l = "clock env + int_or (LOCKOUT_TIME env) 30 * 60 * 1000"
    have "users (handleFailedLogin env (user_id u) nid md d) =
          users (update_users ?t (\<lambda>x. user_id x = user_id u) (\<lambda>x. x\<lparr>lockedUntil := Some ?l\<rparr>) ?d1)"
      using rows fa True
      by (simp add: handleFailedLogin_def Let_def logFailedAttempt_def)
    also have "\<dots> = map (update_row ?t (\<lambda>x. user_id x = user_id u) (\<lambda>x. x\<lparr>lockedUntil := Some ?l\<rparr>))
                       (map ?g (users d))"
      using d1 by (simp add: users_update_users)
    also have "\<dots> = map (\<lambda>y. if user_id y = user_id u
                           then y\<lparr>lockedUntil := Some ?l, user_updatedAt := ?t\<rparr> else y) (map ?g (users d))"
      by (rule map_cong [OF refl]) (rule update_row_lock, auto)
    finally show ?thesis using True by (simp add: comp_def cong: if_cong)
  next
    case False
    have "users (handleFailedLogin env (user_id u) nid md d) = users ?d1"
      using rows fa False
      by (simp add: handleFailedLogin_def Let_def logFailedAttempt_def)
    with d1 False show ?thesis by simp
  qed
qed

lemma found_in_users: "usersByNationalId nid d = u # rest \<Longrightarrow> u \<in> set (users d)"
proof -
  assume "usersByNationalId nid d = u # rest"
  then have "u \<in> set (filter (\<lambda>x. nationalId x = nid) (users d))"
    by (simp add: usersByNationalId_def)
  then show ?thesis by simp
qed

section \<open>Lockout after repeated wrong passwords\<close>

text \<open>
  A user with four failed attempts and the default threshold of five enters a wrong
  password: the counter reaches five and locked-until becomes now plus thirty minutes,
  but the status column is still active, not locked.
\<close>

theorem lockout_status_counterexample:
  "usersByNationalId ''199012345678'' db0 = [john]
   \<and> status john = active \<and> failedAttempts john = 4
   \<and> int_or (MAX_LOGIN_ATTEMPTS env0) 5 = 5
   \<and> fst (login env0 ''199012345678'' ''wrong'' md0 db0) = Inl InvalidCredentials
   \<and> map failedAttempts (users (snd (login env0 ''199012345678'' ''wrong'' md0 db0))) = [5]
   \<and> map lockedUntil (users (snd (login env0 ''199012345678'' ''wrong'' md0 db0)))
       = [Some (clock env0 + 30 * 60 * 1000)]
   \<and> map status (users (snd (login env0 ''199012345678'' ''wrong'' md0 db0))) = [active]
   \<and> active \<noteq> locked"
  by (simp add: login_def usersByNationalId_def handleFailedLogin_def update_users_def
      update_row_def logFailedAttempt_def isLocked_def int_or_def Let_def db0_def john_def env0_def)

text \<open>
  C1, as amended. User ids being unique (the primary key), when an active, unlocked user
  enters a wrong password and the incremented failed-attempt count reaches the configured
  threshold (default 5), login fails with InvalidCredentials and rewrites that user's row
  and no other: the count is one higher and locked-until is now plus the lockout duration
  (default 30 minutes, in milliseconds). The status of every row is what it was: the lock
  is carried by locked-until alone.
\<close>

theorem lockout_sets_lockedUntil_only:
  assumes pk: "distinct (map user_id (users d))"
    and found: "usersByNationalId nid d = u # rest"
    and unlocked: "\<not> isLocked (clock env) u"
    and act: "status u = active"
    and wrong: "\<not> bcrypt_compare env pw (password u)"
    and reached: "failedAttempts u + 1 \<ge> int_or (MAX_LOGIN_ATTEMPTS env) 5"
  shows "fst (login env nid pw md d) = Inl InvalidCredentials
       \<and> users (snd (login env nid pw md d)) =
           map (\<lambda>x. if user_id x = user_id u
                     then x\<lparr>failedAttempts := failedAttempts x + 1,
                            lockedUntil := Some (clock env + int_or (LOCKOUT_TIME env) 30 * 60 * 1000),
                            user_updatedAt := clock env\<rparr>
                     else x) (users d)
       \<and> map status (users (snd (login env nid pw md d))) = map status (users d)"
proof -
  have res: "login env nid pw md d = (Inl InvalidCredentials, handleFailedLogin env (user_id u) nid md d)"
    using found unlocked act wrong by (simp add: login_def)
  have us: "users (handleFailedLogin env (user_id u) nid md d) =
           map (\<lambda>x. if user_id x = user_id u
                     then x\<lparr>failedAttempts := failedAttempts x + 1,
                            lockedUntil := Some (clock env + int_or (LOCKOUT_TIME env) 30 * 60 * 1000),
                            user_updatedAt := clock env\<rparr>
                     else x) (users d)"
    using users_handleFailedLogin [OF pk found_in_users [OF found], of env nid md] reached
    by simp
  have st: "map status (users (handleFailedLogin env (user_id u) nid md d)) = map status (users d)"
    unfolding us by (simp add: comp_def cong: if_cong)
  from res us st show ?thesis by simp
qed

text \<open>The fifth wrong password of a user with four failed attempts.\<close>

theorem lockout_sets_lockedUntil_only_witness:
  "distinct (map user_id (users db0))
   \<and> usersByNationalId ''199012345678'' db0 = [john]
   \<and> \<not> isLocked (clock env0) john \<and> status john = active
   \<and> \<not> bcrypt_compare env0 ''wrong'' (password john)
   \<and> failedAttempts john + 1 \<ge> int_or (MAX_LOGIN_ATTEMPTS env0) 5
   \<and> users (snd (login env0 ''199012345678'' ''wrong'' md0 db0)) =
       [john\<lparr>failedAttempts := 5, lockedUntil := Some 1801000, user_updatedAt := 1000\<rparr>]"
proof -
  have pk: "distinct (map user_id (users db0))" by (simp add: db0_def)
  have found: "usersByNationalId ''199012345678'' db0 = john # []"
    by (simp add: usersByNationalId_def db0_def john_def)
  have unlocked: "\<not> isLocked (clock env0) john" by (simp add: isLocked_def john_def)
  have act: "status john = active" by (simp add: john_def)
  have wrong: "\<not> bcrypt_compare env0 ''wrong'' (password john)" by (simp add: env0_def john_def)
  have reached: "failedAttempts john + 1 \<ge> int_or (MAX_LOGIN_ATTEMPTS env0) 5"
    by (simp add: int_or_def env0_def john_def)
  have vals: "clock env0 + int_or (LOCKOUT_TIME env0) 30 * 60 * 1000 = 1801000"
       "clock env0 = 1000" "failedAttempts john + 1 = 5" "users db0 = [john]"
    by (simp_all add: int_or_def env0_def john_def db0_def)
  from lockout_sets_lockedUntil_only [OF pk found unlocked act wrong reached, of md0]
    pk found unlocked act wrong reached vals
  show ?thesis by simp
qed


section \<open>Successful login\<close>

lemma login_success_unfold:
  assumes found: "usersByNationalId nid d = u # rest"
    and unlocked: "\<not> isLocked (clock env) u"
    and act: "status u = active"
    and right: "bcrypt_compare env pw (password u)"
    and tok: "generateTokens env (view_of u) = Some tk"
  shows "fst (login env nid pw md d) =
           Inr \<lparr>res_user = view_of u, res_tokens = tk, res_sessionId = uuidv4 env 0\<rparr>"
    and "users (snd (login env nid pw md d)) =
           map (update_row (clock env) (\<lambda>x. user_id x = user_id u) (\<lambda>x. x\<lparr>lastLogin := Some (clock env)\<rparr>))
             (map (update_row (clock env) (\<lambda>x. user_id x = user_id u)
                     (\<lambda>x. x\<lparr>failedAttempts := 0, lockedUntil := None\<rparr>)) (users d))"
  using assms
  by (simp_all add: login_def Let_def createSession_def logSuccessfulLogin_def logUserAction_def
      resetFailedAttempts_def users_update_users update_users_def)

text \<open>
  C5. When the resolved account is not locked and active, the password verifies and the
  tokens are minted, login returns a result, and in the users table it leaves behind every
  row with that user's id has failed-attempt count 0, no locked-until and last-login equal
  to now; every other row is untouched.
\<close>

theorem successful_login_resets_counters:
  assumes found: "usersByNationalId nid d = u # rest"
    and unlocked: "\<not> isLocked (clock env) u"
    and act: "status u = active"
    and right: "bcrypt_compare env pw (password u)"
    and tok: "generateTokens env (view_of u) = Some tk"
  shows "(\<exists>r. fst (login env nid pw md d) = Inr r)
       \<and> length (users (snd (login env nid pw md d))) = length (users d)
       \<and> (\<forall>i < length (users d).
            user_id (users (snd (login env nid pw md d)) ! i) = user_id (users d ! i)
            \<and> (if user_id (users d ! i) = user_id u
               then failedAttempts (users (snd (login env nid pw md d)) ! i) = 0
                  \<and> lockedUntil (users (snd (login env nid pw md d)) ! i) = None
                  \<and> lastLogin (users (snd (login env nid pw md d)) ! i) = Some (clock env)
               else users (snd (login env nid pw md d)) ! i = users d ! i))"
proof -
  note un = login_success_unfold [OF assms, of md]
  let ?P = "\<lambda>x. user_id x = user_id u"
  let ?reset = "\<lambda>x::user. x\<lparr>failedAttempts := 0, lockedUntil := None\<rparr>"
  let ?last = "\<lambda>x::user. x\<lparr>lastLogin := Some (clock env)\<rparr>"
  let ?row = "\<lambda>x. update_row (clock env) ?P ?last (update_row (clock env) ?P ?reset x)"
  have id1: "user_id (update_row (clock env) ?P ?reset x) = user_id x" for x
    by (simp add: update_row_sel)
  have row_id: "user_id (?row x) = user_id x" for x
    by (simp add: update_row_sel id1)
  have row_hit: "failedAttempts (?row x) = 0 \<and> lockedUntil (?row x) = None
                 \<and> lastLogin (?row x) = Some (clock env)" if "user_id x = user_id u" for x
    using that by (simp add: update_row_sel id1)
  have row_miss: "?row x = x" if "user_id x \<noteq> user_id u" for x
    using that by (simp add: update_row_other)
  have us: "users (snd (login env nid pw md d)) = map ?row (users d)"
    using un(2) by simp
  have "\<exists>r. fst (login env nid pw md d) = Inr r"
    using un(1) by simp
  moreover have "length (users (snd (login env nid pw md d))) = length (users d)"
    using us by simp
  moreover have "\<forall>i < length (users d).
            user_id (users (snd (login env nid pw md d)) ! i) = user_id (users d ! i)
            \<and> (if user_id (users d ! i) = user_id u
               then failedAttempts (users (snd (login env nid pw md d)) ! i) = 0
                  \<and> lockedUntil (users (snd (login env nid pw md d)) ! i) = None
                  \<and> lastLogin (users (snd (login env nid pw md d)) ! i) = Some (clock env)
               else users (snd (login env nid pw md d)) ! i = users d ! i)"
  proof (intro allI impI)
    fix i assume i: "i < length (users d)"
    then have nth: "users (snd (login env nid pw md d)) ! i = ?row (users d ! i)"
      using us by simp
    show "user_id (users (snd (login env nid pw md d)) ! i) = user_id (users d ! i)
            \<and> (if user_id (users d ! i) = user_id u
               then failedAttempts (users (snd (login env nid pw md d)) ! i) = 0
                  \<and> lockedUntil (users (snd (login env nid pw md d)) ! i) = None
                  \<and> lastLogin (users (snd (login env nid pw md d)) ! i) = Some (clock env)
               else users (snd (login env nid pw md d)) ! i = users d ! i)"
      unfolding nth using row_id row_hit row_miss by auto
  qed
  ultimately show ?thesis by blast
qed

text \<open>
  A user with five failed attempts whose lock has lapsed logs in with the right password.
\<close>

theorem successful_login_resets_counters_witness:
  "usersByNationalId ''199012345678'' db1 = [john_locked]
   \<and> failedAttempts john_locked = 5 \<and> lockedUntil john_locked = Some 5000
   \<and> \<not> isLocked 6000 john_locked \<and> status john_locked = active
   \<and> bcrypt_compare env0 ''Test123!'' (password john_locked)
   \<and> (\<exists>r. fst (login (env0\<lparr>clock := 6000\<rparr>) ''199012345678'' ''Test123!'' md0 db1) = Inr r)
   \<and> failedAttempts (users (snd (login (env0\<lparr>clock := 6000\<rparr>) ''199012345678'' ''Test123!'' md0 db1)) ! 0) = 0
   \<and> lockedUntil (users (snd (login (env0\<lparr>clock := 6000\<rparr>) ''199012345678'' ''Test123!'' md0 db1)) ! 0) = None
   \<and> lastLogin (users (snd (login (env0\<lparr>clock := 6000\<rparr>) ''199012345678'' ''Test123!'' md0 db1)) ! 0) = Some 6000"
proof -
  let ?env = "env0\<lparr>clock := 6000\<rparr>"
  have found: "usersByNationalId ''199012345678'' db1 = john_locked # []"
    by (simp add: usersByNationalId_def db1_def john_locked_def john_def)
  have unlocked: "\<not> isLocked (clock ?env) john_locked"
    by (simp add: isLocked_def john_locked_def)
  have act: "status john_locked = active" by (simp add: john_locked_def john_def)
  have right: "bcrypt_compare ?env ''Test123!'' (password john_locked)"
    by (simp add: env0_def john_locked_def john_def)
  have tok: "generateTokens ?env (view_of john_locked) =
               Some \<lparr>accessToken = ''a.u1'', refreshToken = ''r.u1''\<rparr>"
    by (simp add: generateTokens_def view_of_def env0_def john_locked_def john_def)
  have vals: "failedAttempts john_locked = 5" "lockedUntil john_locked = Some 5000"
      "length (users db1) = 1" "users db1 ! 0 = john_locked" "clock ?env = 6000"
      "bcrypt_compare env0 ''Test123!'' (password john_locked)"
    by (simp_all add: john_locked_def john_def db1_def env0_def)
  from successful_login_resets_counters [OF found unlocked act right tok, of md0]
  have "(\<exists>r. fst (login ?env ''199012345678'' ''Test123!'' md0 db1) = Inr r)
       \<and> (\<forall>i < length (users db1).
            user_id (users (snd (login ?env ''199012345678'' ''Test123!'' md0 db1)) ! i) = user_id (users db1 ! i)
            \<and> (if user_id (users db1 ! i) = user_id john_locked
               then failedAttempts (users (snd (login ?env ''199012345678'' ''Test123!'' md0 db1)) ! i) = 0
                  \<and> lockedUntil (users (snd (login ?env ''199012345678'' ''Test123!'' md0 db1)) ! i) = None
                  \<and> lastLogin (users (snd (login ?env ''199012345678'' ''Test123!'' md0 db1)) ! i) = Some (clock ?env)
               else users (snd (login ?env ''199012345678'' ''Test123!'' md0 db1)) ! i = users db1 ! i))"
    by blast
  then have "(\<exists>r. fst (login ?env ''199012345678'' ''Test123!'' md0 db1) = Inr r)
     \<and> failedAttempts (users (snd (login ?env ''199012345678'' ''Test123!'' md0 db1)) ! 0) = 0
     \<and> lockedUntil (users (snd (login ?env ''199012345678'' ''Test123!'' md0 db1)) ! 0) = None
     \<and> lastLogin (users (snd (login ?env ''199012345678'' ''Test123!'' md0 db1)) ! 0) = Some 6000"
    using vals by auto
  with found unlocked act vals show ?thesis by simp
qed

section \<open>Logout\<close>

lemma sessions_logUserAction: "sessions (logUserAction env k uid act dt md d) = sessions d"
  by (simp add: logUserAction_def)

lemma users_logUserAction: "users (logUserAction env k uid act dt md d) = users d"
  by (simp add: logUserAction_def)

lemma sessions_update_sessions:
  "sessions (update_sessions P f d) = map (\<lambda>s. if P s then f s else s) (sessions d)"
  by (simp add: update_sessions_def)

lemma logout_unfold:
  assumes "\<exists>u \<in> set (users d). user_id u = uid"
  shows "fst (logout env uid sid d) = Inr True"
    and "sessions (snd (logout env uid sid d)) =
     map (\<lambda>s. if session_id s = sid \<and> userId s = uid
               then s\<lparr>isActive := False, loggedOutAt := Some (clock env)\<rparr> else s) (sessions d)"
    and "users (snd (logout env uid sid d)) = users d"
    and "audit_logs (snd (logout env uid sid d)) = audit_logs d @
     [\<lparr>log_id = uuidv4 env 0, log_userId = Some uid, action = ''USER_LOGGED_OUT'',
       details = [(''sessionId'', sid)], log_ipAddress = None, log_userAgent = None,
       timestamp = clock env\<rparr>]"
proof -
  from assms have ex: "list_ex (\<lambda>u. user_id u = uid) (users d)"
    by (simp add: list_ex_iff)
  then show "fst (logout env uid sid d) = Inr True"
    by (simp add: logout_def Let_def users_update_sessions)
  from ex show "sessions (snd (logout env uid sid d)) =
     map (\<lambda>s. if session_id s = sid \<and> userId s = uid
               then s\<lparr>isActive := False, loggedOutAt := Some (clock env)\<rparr> else s) (sessions d)"
    by (simp add: logout_def Let_def users_update_sessions sessions_logUserAction
        sessions_update_sessions)
  from ex show "users (snd (logout env uid sid d)) = users d"
    by (simp add: logout_def Let_def users_update_sessions users_logUserAction)
  from ex show "audit_logs (snd (logout env uid sid d)) = audit_logs d @
     [\<lparr>log_id = uuidv4 env 0, log_userId = Some uid, action = ''USER_LOGGED_OUT'',
       details = [(''sessionId'', sid)], log_ipAddress = None, log_userAgent = None,
       timestamp = clock env\<rparr>]"
    by (simp add: logout_def Let_def users_update_sessions logUserAction_def
        audit_logs_update_sessions no_metadata_def or_null_def truthy_def)
qed

text \<open>
  Session s1 is logged out at time 1000 and, already inactive, logged out again at time
  2000. The second call reports success, but it is not a no-op: logged-out-at moves from
  1000 to 2000 and a second audit entry is appended, so the state differs from the one the
  first logout left.
\<close>

theorem logout_twice_counterexample:
  "isActive (hd (sessions db0))
   \<and> fst (logout env0 ''u1'' ''s1'' db0) = Inr True
   \<and> \<not> isActive (hd (sessions (snd (logout env0 ''u1'' ''s1'' db0))))
   \<and> loggedOutAt (hd (sessions (snd (logout env0 ''u1'' ''s1'' db0)))) = Some 1000
   \<and> fst (logout env1 ''u1'' ''s1'' (snd (logout env0 ''u1'' ''s1'' db0))) = Inr True
   \<and> loggedOutAt (hd (sessions (snd (logout env1 ''u1'' ''s1'' (snd (logout env0 ''u1'' ''s1'' db0))))))
       = Some 2000
   \<and> length (audit_logs (snd (logout env0 ''u1'' ''s1'' db0))) = 1
   \<and> length (audit_logs (snd (logout env1 ''u1'' ''s1'' (snd (logout env0 ''u1'' ''s1'' db0))))) = 2
   \<and> snd (logout env1 ''u1'' ''s1'' (snd (logout env0 ''u1'' ''s1'' db0)))
       \<noteq> snd (logout env0 ''u1'' ''s1'' db0)"
proof -
  have u0: "\<exists>u \<in> set (users db0). user_id u = ''u1''"
    by (simp add: db0_def john_def)
  note first = logout_unfold [OF u0, of env0 "''s1''"]
  have u1: "\<exists>u \<in> set (users (snd (logout env0 ''u1'' ''s1'' db0))). user_id u = ''u1''"
    using u0 first(3) by simp
  note second = logout_unfold [OF u1, of env1 "''s1''"]
  have r1: "sessions (snd (logout env0 ''u1'' ''s1'' db0)) =
              [s1\<lparr>isActive := False, loggedOutAt := Some 1000\<rparr>, s2]"
    unfolding first(2) by (simp add: db0_def s1_def s2_def env0_def)
  have r2: "sessions (snd (logout env1 ''u1'' ''s1'' (snd (logout env0 ''u1'' ''s1'' db0)))) =
              [s1\<lparr>isActive := False, loggedOutAt := Some 2000\<rparr>, s2]"
    unfolding second(2) r1 by (simp add: s1_def s2_def env0_def env1_def)
  have l1: "length (audit_logs (snd (logout env0 ''u1'' ''s1'' db0))) = 1"
    unfolding first(4) by (simp add: db0_def)
  have l2: "length (audit_logs (snd (logout env1 ''u1'' ''s1'' (snd (logout env0 ''u1'' ''s1'' db0))))) = 2"
    unfolding second(4) first(4) by (simp add: db0_def)
  have a: "loggedOutAt (hd (sessions (snd (logout env0 ''u1'' ''s1'' db0)))) = Some 1000"
    unfolding r1 by simp
  have b: "loggedOutAt (hd (sessions (snd (logout env1 ''u1'' ''s1'' (snd (logout env0 ''u1'' ''s1'' db0))))))
       = Some 2000"
    unfolding r2 by simp
  from a b have c: "snd (logout env1 ''u1'' ''s1'' (snd (logout env0 ''u1'' ''s1'' db0)))
       \<noteq> snd (logout env0 ''u1'' ''s1'' db0)"
    by auto
  have d: "isActive (hd (sessions db0))"
    by (simp add: db0_def s1_def)
  have e: "\<not> isActive (hd (sessions (snd (logout env0 ''u1'' ''s1'' db0))))"
    unfolding r1 by simp
  from a b c d e l1 l2 first(1) second(1) show ?thesis by simp
qed

text \<open>
  C7, as amended. For a user id that some user row carries, logout reports success, marks
  the session named by id and owner inactive with logged-out-at equal to now, leaves every
  other session row and the users alone, and appends one audit entry with that user id and
  action USER_LOGGED_OUT, naming the session. Logging out again, at a clock reading that
  may be later, reports success again and leaves every active flag as the first logout
  left it; the session rows are then those of a single logout at the later reading, so
  logged-out-at is stamped anew, and they are the rows of the first logout when the clock
  has not moved. The audit log then ends with two USER_LOGGED_OUT entries, one per call,
  each stamped with the time of its call.
\<close>

theorem logout_inactive_and_restamped:
  assumes "\<exists>u \<in> set (users d). user_id u = uid"
  shows "fst (logout env uid sid d) = Inr True
   \<and> sessions (snd (logout env uid sid d)) =
       map (\<lambda>s. if session_id s = sid \<and> userId s = uid
                 then s\<lparr>isActive := False, loggedOutAt := Some (clock env)\<rparr> else s) (sessions d)
   \<and> users (snd (logout env uid sid d)) = users d
   \<and> audit_logs (snd (logout env uid sid d)) = audit_logs d @
       [\<lparr>log_id = uuidv4 env 0, log_userId = Some uid, action = ''USER_LOGGED_OUT'',
         details = [(''sessionId'', sid)], log_ipAddress = None, log_userAgent = None,
         timestamp = clock env\<rparr>]
   \<and> fst (logout env' uid sid (snd (logout env uid sid d))) = Inr True
   \<and> sessions (snd (logout env' uid sid (snd (logout env uid sid d)))) =
       map (\<lambda>s. if session_id s = sid \<and> userId s = uid
                 then s\<lparr>isActive := False, loggedOutAt := Some (clock env')\<rparr> else s) (sessions d)
   \<and> map isActive (sessions (snd (logout env' uid sid (snd (logout env uid sid d))))) =
       map isActive (sessions (snd (logout env uid sid d)))
   \<and> (clock env' = clock env \<longrightarrow>
        sessions (snd (logout env' uid sid (snd (logout env uid sid d)))) =
        sessions (snd (logout env uid sid d)))
   \<and> users (snd (logout env' uid sid (snd (logout env uid sid d)))) = users d
   \<and> audit_logs (snd (logout env' uid sid (snd (logout env uid sid d)))) = audit_logs d @
       [\<lparr>log_id = uuidv4 env 0, log_userId = Some uid, action = ''USER_LOGGED_OUT'',
         details = [(''sessionId'', sid)], log_ipAddress = None, log_userAgent = None,
         timestamp = clock env\<rparr>,
        \<lparr>log_id = uuidv4 env' 0, log_userId = Some uid, action = ''USER_LOGGED_OUT'',
         details = [(''sessionId'', sid)], log_ipAddress = None, log_userAgent = None,
         timestamp = clock env'\<rparr>]"
proof -
  note first = logout_unfold [OF assms, of env sid]
  have again: "\<exists>u \<in> set (users (snd (logout env uid sid d))). user_id u = uid"
    using assms first(3) by simp
  note second = logout_unfold [OF again, of env' sid]
  have twice: "sessions (snd (logout env' uid sid (snd (logout env uid sid d)))) =
       map (\<lambda>s. if session_id s = sid \<and> userId s = uid
                 then s\<lparr>isActive := False, loggedOutAt := Some (clock env')\<rparr> else s) (sessions d)"
    by (simp add: second(2) first(2) comp_def cong: if_cong)
  have flags: "map isActive (sessions (snd (logout env' uid sid (snd (logout env uid sid d))))) =
       map isActive (sessions (snd (logout env uid sid d)))"
    unfolding twice by (simp add: first(2) comp_def cong: if_cong)
  have same: "clock env' = clock env \<longrightarrow>
        sessions (snd (logout env' uid sid (snd (logout env uid sid d)))) =
        sessions (snd (logout env uid sid d))"
    unfolding twice by (simp add: first(2))
  have us: "users (snd (logout env' uid sid (snd (logout env uid sid d)))) = users d"
    by (simp add: second(3) first(3))
  have logs: "audit_logs (snd (logout env' uid sid (snd (logout env uid sid d)))) = audit_logs d @
       [\<lparr>log_id = uuidv4 env 0, log_userId = Some uid, action = ''USER_LOGGED_OUT'',
         details = [(''sessionId'', sid)], log_ipAddress = None, log_userAgent = None,
         timestamp = clock env\<rparr>,
        \<lparr>log_id = uuidv4 env' 0, log_userId = Some uid, action = ''USER_LOGGED_OUT'',
         details = [(''sessionId'', sid)], log_ipAddress = None, log_userAgent = None,
         timestamp = clock env'\<rparr>]"
    by (simp add: second(4) first(4))
  from first second(1) twice flags same us logs show ?thesis
    by simp
qed

text \<open>
  Session s1 of user u1 is logged out at time 1000 and again at time 2000, where
  logged-out-at is stamped anew, and also twice at time 1000, where the rows stay.
\<close>

theorem logout_inactive_and_restamped_witness:
  "map user_id (users db0) = [''u1'']
   \<and> clock env0 = 1000 \<and> clock env1 = 2000
   \<and> fst (logout env1 ''u1'' ''s1'' (snd (logout env0 ''u1'' ''s1'' db0))) = Inr True
   \<and> sessions (snd (logout env0 ''u1'' ''s1'' db0)) =
       [s1\<lparr>isActive := False, loggedOutAt := Some 1000\<rparr>, s2]
   \<and> sessions (snd (logout env1 ''u1'' ''s1'' (snd (logout env0 ''u1'' ''s1'' db0)))) =
       [s1\<lparr>isActive := False, loggedOutAt := Some 2000\<rparr>, s2]
   \<and> map action (audit_logs (snd (logout env1 ''u1'' ''s1'' (snd (logout env0 ''u1'' ''s1'' db0)))))
       = [''USER_LOGGED_OUT'', ''USER_LOGGED_OUT'']
   \<and> map log_userId (audit_logs (snd (logout env1 ''u1'' ''s1'' (snd (logout env0 ''u1'' ''s1'' db0)))))
       = [Some ''u1'', Some ''u1'']
   \<and> map timestamp (audit_logs (snd (logout env1 ''u1'' ''s1'' (snd (logout env0 ''u1'' ''s1'' db0)))))
       = [1000, 2000]
   \<and> sessions (snd (logout env0 ''u1'' ''s1'' (snd (logout env0 ''u1'' ''s1'' db0)))) =
       sessions (snd (logout env0 ''u1'' ''s1'' db0))"
proof -
  have ex: "\<exists>u \<in> set (users db0). user_id u = ''u1''"
    by (simp add: db0_def john_def)
  have v: "sessions db0 = [s1, s2]" "session_id s1 = ''s1''" "userId s1 = ''u1''"
     "session_id s2 = ''s2''" "clock env0 = 1000" "clock env1 = 2000" "audit_logs db0 = []"
     "map user_id (users db0) = [''u1'']"
    by (simp_all add: db0_def s1_def s2_def env0_def env1_def john_def)
  from logout_inactive_and_restamped [OF ex, of env0 "''s1''" env1]
    logout_inactive_and_restamped [OF ex, of env0 "''s1''" env0] v
  show ?thesis by simp
qed

section \<open>Terminating all sessions\<close>

lemma count_flipped:
  "\<forall>s \<in> set ss. P s \<longrightarrow> isActive s \<Longrightarrow>
   length (filter (\<lambda>(s, s'). isActive s \<and> \<not> isActive s')
      (zip ss (map (\<lambda>s. if P s then s\<lparr>isActive := False, loggedOutAt := l\<rparr> else s) ss))) =
   length (filter P ss)"
  by (induction ss) auto

lemma terminateAll_where_iff:
  assumes "session_id s \<noteq> []"
  shows "terminateAll_where uid excl s \<longleftrightarrow>
         userId s = uid \<and> isActive s \<and> Some (session_id s) \<noteq> excl"
  using assms by (auto simp: terminateAll_where_def split: option.splits)

text \<open>
  C8. Session ids being non-empty (they are generated uuids), for every user and every
  exclusion id, absent or not, terminating all sessions rewrites exactly the rows that
  belong to the user, are active and are not the excluded session: each becomes inactive
  with logged-out-at equal to now. Every other row, the excluded session's and those of
  other users among them, is unchanged, as are the other tables, and the count returned
  is the number of rows whose active flag went from true to false. The controller passes
  the request's user and session cookie through.
\<close>

theorem terminateAllSessions_flips_exactly:
  assumes ids: "\<forall>s \<in> set (sessions d). session_id s \<noteq> []"
  shows "SessionController_terminateAllSessions env uid excl d = terminateAllSessions env uid excl d
    \<and> length (sessions (snd (terminateAllSessions env uid excl d))) = length (sessions d)
    \<and> (\<forall>i < length (sessions d).
         if userId (sessions d ! i) = uid \<and> isActive (sessions d ! i)
            \<and> Some (session_id (sessions d ! i)) \<noteq> excl
         then sessions (snd (terminateAllSessions env uid excl d)) ! i =
                (sessions d ! i)\<lparr>isActive := False, loggedOutAt := Some (clock env)\<rparr>
         else sessions (snd (terminateAllSessions env uid excl d)) ! i = sessions d ! i)
    \<and> fst (terminateAllSessions env uid excl d) =
        length (filter (\<lambda>(s, s'). isActive s \<and> \<not> isActive s')
           (zip (sessions d) (sessions (snd (terminateAllSessions env uid excl d)))))
    \<and> users (snd (terminateAllSessions env uid excl d)) = users d
    \<and> audit_logs (snd (terminateAllSessions env uid excl d)) = audit_logs d"
proof -
  let ?P = "terminateAll_where uid excl"
  let ?f = "\<lambda>s. if ?P s then s\<lparr>isActive := False, loggedOutAt := Some (clock env)\<rparr> else s"
  have ss: "sessions (snd (terminateAllSessions env uid excl d)) = map ?f (sessions d)"
    by (simp add: terminateAllSessions_def sessions_update_sessions)
  have act: "\<forall>s \<in> set (sessions d). ?P s \<longrightarrow> isActive s"
    by (simp add: terminateAll_where_def)
  have cnt: "fst (terminateAllSessions env uid excl d) =
        length (filter (\<lambda>(s, s'). isActive s \<and> \<not> isActive s')
           (zip (sessions d) (sessions (snd (terminateAllSessions env uid excl d)))))"
    unfolding ss using count_flipped [OF act, of "Some (clock env)"]
    by (simp add: terminateAllSessions_def affectedRows_def)
  have rows: "\<forall>i < length (sessions d).
         if userId (sessions d ! i) = uid \<and> isActive (sessions d ! i)
            \<and> Some (session_id (sessions d ! i)) \<noteq> excl
         then sessions (snd (terminateAllSessions env uid excl d)) ! i =
                (sessions d ! i)\<lparr>isActive := False, loggedOutAt := Some (clock env)\<rparr>
         else sessions (snd (terminateAllSessions env uid excl d)) ! i = sessions d ! i"
  proof (intro allI impI)
    fix i assume i: "i < length (sessions d)"
    then have "sessions d ! i \<in> set (sessions d)" by simp
    with ids have "session_id (sessions d ! i) \<noteq> []" by blast
    from terminateAll_where_iff [OF this, of uid excl] i
    show "if userId (sessions d ! i) = uid \<and> isActive (sessions d ! i)
            \<and> Some (session_id (sessions d ! i)) \<noteq> excl
         then sessions (snd (terminateAllSessions env uid excl d)) ! i =
                (sessions d ! i)\<lparr>isActive := False, loggedOutAt := Some (clock env)\<rparr>
         else sessions (snd (terminateAllSessions env uid excl d)) ! i = sessions d ! i"
      unfolding ss by simp
  qed
  have frame: "users (snd (terminateAllSessions env uid excl d)) = users d
    \<and> audit_logs (snd (terminateAllSessions env uid excl d)) = audit_logs d"
    by (simp add: terminateAllSessions_def users_update_sessions audit_logs_update_sessions)
  from ss cnt rows frame show ?thesis
    by (simp add: SessionController_terminateAllSessions_def)
qed

text \<open>User u1 has two active sessions and excludes s1: s2 is the one row flipped.\<close>

theorem terminateAllSessions_flips_exactly_witness:
  "map session_id (sessions db0) = [''s1'', ''s2'']
   \<and> map userId (sessions db0) = [''u1'', ''u1'']
   \<and> map isActive (sessions db0) = [True, True]
   \<and> terminateAllSessions env0 ''u1'' (Some ''s1'') db0 =
       (1, db0\<lparr>sessions := [s1, s2\<lparr>isActive := False, loggedOutAt := Some 1000\<rparr>]\<rparr>)"
proof -
  have ids: "\<forall>s \<in> set (sessions db0). session_id s \<noteq> []"
    by (simp add: db0_def s1_def s2_def)
  have ev: "terminateAllSessions env0 ''u1'' (Some ''s1'') db0 =
       (1, db0\<lparr>sessions := [s1, s2\<lparr>isActive := False, loggedOutAt := Some 1000\<rparr>]\<rparr>)"
    by (simp add: terminateAllSessions_def affectedRows_def update_sessions_def
        terminateAll_where_def db0_def s1_def s2_def env0_def)
  have rows: "map session_id (sessions db0) = [''s1'', ''s2'']"
    "map userId (sessions db0) = [''u1'', ''u1'']"
    "map isActive (sessions db0) = [True, True]"
    by (simp_all add: db0_def s1_def s2_def)
  from terminateAllSessions_flips_exactly [OF ids, of env0 "''u1''" "Some ''s1''"] rows ev
  show ?thesis by simp
qed


section \<open>Session extension\<close>









section \<open>Request authentication\<close>

text \<open>
  The session s1 expires at 1000 and the request arrives at 1000: now is not before
  expires-at, yet the request is authenticated.
\<close>

theorem session_boundary_counterexample:
  "bearer (Some ''Bearer a.u1'') = Some ''a.u1''
   \<and> jwt_verify env0 ''a.u1'' = Inr (Some ''u1'')
   \<and> usersById (Some ''u1'') db0 = [john]
   \<and> status john = active \<and> \<not> isLocked (clock env0) john
   \<and> activeSessionsFor ''u1'' ''a.u1'' db0 = [s1]
   \<and> isActive s1 \<and> \<not> clock env0 < expiresAt s1
   \<and> fst (authenticateToken env0 (Some ''Bearer a.u1'') db0) =
       Next \<lparr>p_id = ''u1'', p_nationalId = ''199012345678'', p_name = ''John Doe'',
             p_email = ''john@example.com'', p_role = citizen, p_sessionId = ''s1''\<rparr>"
  by (simp add: authenticateToken_def bearer_def usersById_def activeSessionsFor_def isLocked_def
      env0_def db0_def john_def s1_def s2_def)

lemma authenticate_success:
  assumes "bearer h = Some tok" "tok \<noteq> []" "jwt_verify env tok = Inr (Some i)"
    "usersById (Some i) d = u # us" "status u = active" "\<not> isLocked (clock env) u"
    "activeSessionsFor (user_id u) tok d = s # ss" "clock env \<le> expiresAt s"
  shows "authenticateToken env h d =
     (Next \<lparr>p_id = user_id u, p_nationalId = nationalId u, p_name = user_name u,
            p_email = email u, p_role = role u, p_sessionId = session_id s\<rparr>,
      update_sessions (\<lambda>x. session_id x = session_id s) (\<lambda>x. x\<lparr>lastActivity := clock env\<rparr>) d)"
  using assms by (simp add: authenticateToken_def)

lemma authenticate_expired:
  assumes "bearer h = Some tok" "tok \<noteq> []" "jwt_verify env tok = Inr (Some i)"
    "usersById (Some i) d = u # us" "status u = active" "\<not> isLocked (clock env) u"
    "activeSessionsFor (user_id u) tok d = s # ss" "clock env > expiresAt s"
  shows "authenticateToken env h d =
     (Rejected 401 ''Session expired'',
      update_sessions (\<lambda>x. session_id x = session_id s) (\<lambda>x. x\<lparr>isActive := False\<rparr>) d)"
  using assms by (simp add: authenticateToken_def)

lemma authenticate_next_only_if:
  assumes "fst (authenticateToken env h d) = Next p"
  shows "\<exists>tok i u us s ss. bearer h = Some tok \<and> tok \<noteq> [] \<and> jwt_verify env tok = Inr (Some i)
     \<and> usersById (Some i) d = u # us \<and> status u = active \<and> \<not> isLocked (clock env) u
     \<and> activeSessionsFor (user_id u) tok d = s # ss \<and> clock env \<le> expiresAt s"
proof -
  from assms obtain tok where t: "bearer h = Some tok" "tok \<noteq> []"
    by (auto simp: authenticateToken_def split: option.splits if_splits)
  from assms t obtain di where v: "jwt_verify env tok = Inr di"
    by (auto simp: authenticateToken_def split: sum.splits jwt_error.splits)
  from assms t v obtain u us where u: "usersById di d = u # us"
    by (auto simp: authenticateToken_def split: list.splits)
  then obtain i where i: "di = Some i"
    by (cases di) (auto simp: usersById_def)
  from assms t v u have st: "status u = active" "\<not> isLocked (clock env) u"
    by (auto simp: authenticateToken_def split: if_splits)
  from assms t v u st obtain s ss where s: "activeSessionsFor (user_id u) tok d = s # ss"
    by (auto simp: authenticateToken_def split: list.splits)
  from assms t v u st s have "clock env \<le> expiresAt s"
    by (auto simp: authenticateToken_def split: if_splits)
  with t v u i st s show ?thesis by blast
qed


text \<open>
  C2, as amended. A bearer-token request is authenticated exactly when the header carries
  a non-empty token that verifies and names a user id, the first user row with that id has
  status active and is not locked now, and the first session row of that user with that
  token and isActive set has now not after expires-at (now equal to expires-at still
  authenticates). When all but the last hold, the outcome is decided by that session row:
  if now is after its expires-at, every row with its id is made inactive and the request
  fails with 401 "Session expired"; otherwise last-activity of the rows with its id
  becomes now and the principal carries the user's id, identity number, name, email and
  role and the session's id.
\<close>

theorem authenticateToken_first_session_decides:
  "((\<exists>p. fst (authenticateToken env h d) = Next p) \<longleftrightarrow>
      (\<exists>tok i u us s ss. bearer h = Some tok \<and> tok \<noteq> [] \<and> jwt_verify env tok = Inr (Some i)
         \<and> usersById (Some i) d = u # us \<and> status u = active \<and> \<not> isLocked (clock env) u
         \<and> activeSessionsFor (user_id u) tok d = s # ss \<and> clock env \<le> expiresAt s))
   \<and> (bearer h = Some tok \<and> tok \<noteq> [] \<and> jwt_verify env tok = Inr (Some i)
         \<and> usersById (Some i) d = u # us \<and> status u = active \<and> \<not> isLocked (clock env) u
         \<and> activeSessionsFor (user_id u) tok d = s # ss \<longrightarrow>
       authenticateToken env h d =
         (if clock env > expiresAt s
          then (Rejected 401 ''Session expired'',
                d\<lparr>sessions := map (\<lambda>x. if session_id x = session_id s
                                        then x\<lparr>isActive := False\<rparr> else x) (sessions d)\<rparr>)
          else (Next \<lparr>p_id = user_id u, p_nationalId = nationalId u, p_name = user_name u,
                       p_email = email u, p_role = role u, p_sessionId = session_id s\<rparr>,
                d\<lparr>sessions := map (\<lambda>x. if session_id x = session_id s
                                        then x\<lparr>lastActivity := clock env\<rparr> else x) (sessions d)\<rparr>)))"
proof (intro conjI iffI impI)
  assume "\<exists>p. fst (authenticateToken env h d) = Next p"
  then obtain p where "fst (authenticateToken env h d) = Next p" ..
  then show "\<exists>tok i u us s ss. bearer h = Some tok \<and> tok \<noteq> [] \<and> jwt_verify env tok = Inr (Some i)
         \<and> usersById (Some i) d = u # us \<and> status u = active \<and> \<not> isLocked (clock env) u
         \<and> activeSessionsFor (user_id u) tok d = s # ss \<and> clock env \<le> expiresAt s"
    by (rule authenticate_next_only_if)
next
  assume "\<exists>tok i u us s ss. bearer h = Some tok \<and> tok \<noteq> [] \<and> jwt_verify env tok = Inr (Some i)
         \<and> usersById (Some i) d = u # us \<and> status u = active \<and> \<not> isLocked (clock env) u
         \<and> activeSessionsFor (user_id u) tok d = s # ss \<and> clock env \<le> expiresAt s"
  then obtain tok i u us s ss where "bearer h = Some tok" "tok \<noteq> []"
      "jwt_verify env tok = Inr (Some i)" "usersById (Some i) d = u # us" "status u = active"
      "\<not> isLocked (clock env) u" "activeSessionsFor (user_id u) tok d = s # ss"
      "clock env \<le> expiresAt s"
    by blast
  from authenticate_success [OF this]
  show "\<exists>p. fst (authenticateToken env h d) = Next p" by simp
next
  assume a: "bearer h = Some tok \<and> tok \<noteq> [] \<and> jwt_verify env tok = Inr (Some i)
         \<and> usersById (Some i) d = u # us \<and> status u = active \<and> \<not> isLocked (clock env) u
         \<and> activeSessionsFor (user_id u) tok d = s # ss"
  show "authenticateToken env h d =
         (if clock env > expiresAt s
          then (Rejected 401 ''Session expired'',
                d\<lparr>sessions := map (\<lambda>x. if session_id x = session_id s
                                        then x\<lparr>isActive := False\<rparr> else x) (sessions d)\<rparr>)
          else (Next \<lparr>p_id = user_id u, p_nationalId = nationalId u, p_name = user_name u,
                       p_email = email u, p_role = role u, p_sessionId = session_id s\<rparr>,
                d\<lparr>sessions := map (\<lambda>x. if session_id x = session_id s
                                        then x\<lparr>lastActivity := clock env\<rparr> else x) (sessions d)\<rparr>))"
  proof (cases "clock env > expiresAt s")
    case True
    with a authenticate_expired [of h tok env i d u us s ss] show ?thesis
      by (simp add: update_sessions_def)
  next
    case False
    then have "clock env \<le> expiresAt s" by simp
    with a authenticate_success [of h tok env i d u us s ss] False show ?thesis
      by (simp add: update_sessions_def)
  qed
qed

text \<open>A request at time 2000 with the token of session s1, which expired at 1000.\<close>

theorem authenticateToken_first_session_decides_witness:
  "bearer (Some ''Bearer a.u1'') = Some ''a.u1'' \<and> ''a.u1'' \<noteq> []
   \<and> jwt_verify env1 ''a.u1'' = Inr (Some ''u1'')
   \<and> usersById (Some ''u1'') db0 = [john]
   \<and> status john = active \<and> \<not> isLocked (clock env1) john
   \<and> activeSessionsFor (user_id john) ''a.u1'' db0 = [s1]
   \<and> clock env1 > expiresAt s1
   \<and> authenticateToken env1 (Some ''Bearer a.u1'') db0 =
       (Rejected 401 ''Session expired'', db0\<lparr>sessions := [s1\<lparr>isActive := False\<rparr>, s2]\<rparr>)"
proof -
  have hyp: "bearer (Some ''Bearer a.u1'') = Some ''a.u1'' \<and> ''a.u1'' \<noteq> []
     \<and> jwt_verify env1 ''a.u1'' = Inr (Some ''u1'')
     \<and> usersById (Some ''u1'') db0 = john # []
     \<and> status john = active \<and> \<not> isLocked (clock env1) john
     \<and> activeSessionsFor (user_id john) ''a.u1'' db0 = s1 # []"
    by (simp add: bearer_def usersById_def activeSessionsFor_def isLocked_def
        env1_def env0_def db0_def john_def s1_def s2_def)
  have late: "clock env1 > expiresAt s1"
    by (simp add: env1_def env0_def s1_def)
  have v: "sessions db0 = [s1, s2]" "session_id s1 = ''s1''" "session_id s2 = ''s2''"
    by (simp_all add: db0_def s1_def s2_def)
  from authenticateToken_first_session_decides
    [of env1 "Some ''Bearer a.u1''" db0 "''a.u1''" "''u1''" john "[]" s1 "[]"] hyp late
  have "authenticateToken env1 (Some ''Bearer a.u1'') db0 =
       (Rejected 401 ''Session expired'',
        db0\<lparr>sessions := map (\<lambda>x. if session_id x = session_id s1
                                  then x\<lparr>isActive := False\<rparr> else x) (sessions db0)\<rparr>)"
    by simp
  with hyp late v show ?thesis by simp
qed

end
